theory Spec2Isabelle
  imports Main "HOL-Library.Finite_Map" "HOL-Library.Char_ord" "HOL-Library.List_Lexorder"
begin

section \<open>JavaScript values\<close>

text \<open>
  The library stores and passes values of type \<open>any\<close>. The model keeps the part of the
  JavaScript value space that the code under verification can tell apart:
  \<^item> \<open>undefined\<close> and \<open>null\<close> (the operands \<open>??\<close> replaces), booleans, strings, and
    the numbers that are safe integers (\<open>Number.isSafeInteger\<close>: the integers from
    \<open>-(2^53 - 1)\<close> to \<open>2^53 - 1\<close>, each exactly one number), the falsy values of
    \<open>||\<close> among them;
  \<^item> \<open>Err m\<close>, an instance of \<open>Error\<close> created with message \<open>m\<close>
    (the values for which \<open>instanceof Error\<close> holds);
  \<^item> \<open>Obj ps\<close>, a plain object with own data properties \<open>ps\<close>, keyed by strings as in
    \<open>Record<string, any>\<close>, each with its descriptor flags;
  \<^item> \<open>Ctx ms ps\<close>, an instance of class \<open>Context\<close> (or of a subclass): \<open>ms\<close> are the
    member names reachable through its prototype chain, \<open>ps\<close> its own properties.
  Objects are compared by their contents; accessor properties, symbol keys, functions and
  arrays are outside this value space. In particular no property of a modelled object
  holds a function, and no class on the prototype chain of a \<open>Context\<close> instance
  redefines \<open>toString\<close> or \<open>valueOf\<close>.
\<close>

typedef safe_integer = "{n :: int. - 9007199254740991 \<le> n \<and> n \<le> 9007199254740991}"
  morphisms int_of_safe Abs_safe_integer
  by (rule exI [of _ 0]) simp

setup_lifting type_definition_safe_integer

text \<open>The number written as the integer literal \<open>n\<close>, for \<open>n\<close> in the safe range.\<close>

lift_definition safe :: "int \<Rightarrow> safe_integer" is
  "\<lambda>n. if - 9007199254740991 \<le> n \<and> n \<le> 9007199254740991 then n else 0"
  by simp

datatype 'v pdesc = Prop (pvalue: 'v) (writable: bool) (enumerable: bool) (configurable: bool)

datatype jsval =
    Undefined
  | Null
  | Bool bool
  | Num safe_integer
  | Str string
  | Err string
  | Obj "(string, jsval pdesc) fmap"
  | Ctx "string list" "(string, jsval pdesc) fmap"

type_synonym object = "(string, jsval pdesc) fmap"

text \<open>The outcome of a call (returns or throws), the settlement of a promise, and a value
  that \<open>await\<close> accepts (a plain value or a promise).\<close>

datatype 'a completion = Normal 'a | Thrown jsval

datatype 'a settled = Fulfilled 'a | Rejected jsval

datatype 'a awaitable = Plain 'a | Promise "'a settled"

fun await :: "'a awaitable \<Rightarrow> 'a completion" where
  "await (Plain x) = Normal x"
| "await (Promise (Fulfilled x)) = Normal x"
| "await (Promise (Rejected e)) = Thrown e"

text \<open>\<open>try { ... await f(...) ... } catch (error)\<close>: a synchronous throw of the call and a
  rejection of the promise it returns reach the same \<open>catch\<close>.\<close>

fun try_await :: "'a awaitable completion \<Rightarrow> 'a completion" where
  "try_await (Thrown e) = Thrown e"
| "try_await (Normal a) = await a"

subsection \<open>Operators\<close>

fun nullish :: "jsval \<Rightarrow> bool" where
  "nullish Undefined = True"
| "nullish Null = True"
| "nullish _ = False"

text \<open>\<open>a ?? b\<close> and \<open>a || b\<close>.\<close>

definition nullish_or :: "jsval \<Rightarrow> jsval \<Rightarrow> jsval" where
  "nullish_or a b = (if nullish a then b else a)"

fun truthy :: "jsval \<Rightarrow> bool" where
  "truthy Undefined = False"
| "truthy Null = False"
| "truthy (Bool b) = b"
| "truthy (Num n) = (int_of_safe n \<noteq> 0)"
| "truthy (Str s) = (s \<noteq> [])"
| "truthy _ = True"

definition or_else :: "jsval \<Rightarrow> jsval \<Rightarrow> jsval" where
  "or_else a b = (if truthy a then a else b)"

definition empty_object :: jsval where
  "empty_object = Obj fmempty"

fun instanceof_Error :: "jsval \<Rightarrow> bool" where
  "instanceof_Error (Err m) = True"
| "instanceof_Error _ = False"

definition new_Error :: "string \<Rightarrow> jsval" where
  "new_Error msg = Err msg"

subsection \<open>\<open>String(value)\<close>\<close>

definition digit_char :: "nat \<Rightarrow> char" where
  "digit_char d = char_of (48 + d)"

fun show_nat :: "nat \<Rightarrow> string" where
  "show_nat n = (if n < 10 then [digit_char n] else show_nat (n div 10) @ [digit_char (n mod 10)])"

declare show_nat.simps [simp del]

definition show_int :: "int \<Rightarrow> string" where
  "show_int i = (if i < 0 then CHR ''-'' # show_nat (nat (- i)) else show_nat (nat i))"

text \<open>
  \<open>String(value)\<close> returns a string or throws. A safe integer is below \<open>10^21\<close> in
  magnitude, so its string is its decimal numeral. An \<open>Error\<close> uses
  \<open>Error.prototype.toString\<close>. For a plain object or a \<open>Context\<close> instance the
  conversion reads \<open>toString\<close>: without an own property of that name it finds
  \<open>Object.prototype.toString\<close>, which gives \<open>[object Object]\<close>; an own \<open>toString\<close>
  property, as in \<open>{toString: 1}\<close>, holds a value that is not callable, the conversion
  passes to \<open>valueOf\<close>, which is not callable either or returns the object itself, and
  a \<open>TypeError\<close> is thrown. The \<open>TypeError\<close> is an \<open>Error\<close>; its message is the
  engine's.
\<close>

definition TypeError_not_primitive :: jsval where
  "TypeError_not_primitive = Err ''Cannot convert object to primitive value''"

definition object_String :: "object \<Rightarrow> string completion" where
  "object_String ps =
     (if ''toString'' |\<in>| fmdom ps then Thrown TypeError_not_primitive
      else Normal ''[object Object]'')"

fun js_String :: "jsval \<Rightarrow> string completion" where
  "js_String Undefined = Normal ''undefined''"
| "js_String Null = Normal ''null''"
| "js_String (Bool b) = Normal (if b then ''true'' else ''false'')"
| "js_String (Num n) = Normal (show_int (int_of_safe n))"
| "js_String (Str s) = Normal s"
| "js_String (Err m) = Normal (if m = [] then ''Error'' else ''Error: '' @ m)"
| "js_String (Obj ps) = object_String ps"
| "js_String (Ctx ms ps) = object_String ps"

subsection \<open>Object literals and spread\<close>

text \<open>A property written by an object literal, by spread or by assignment to a new key.\<close>

definition data_prop :: "jsval \<Rightarrow> jsval pdesc" where
  "data_prop v = Prop v True True True"

text \<open>The own enumerable properties of an object with their values: what \<open>{...o}\<close> copies
  and what \<open>Object.entries(o)\<close> lists.\<close>

definition own_enumerable :: "object \<Rightarrow> (string, jsval) fmap" where
  "own_enumerable ps =
     fmmap pvalue
       (fmfilter (\<lambda>k. case fmlookup ps k of Some p \<Rightarrow> enumerable p | None \<Rightarrow> False) ps)"

text \<open>\<open>{...v}\<close> for an arbitrary value: a string spreads its characters under their
  indices, the other primitives and an \<open>Error\<close> (whose \<open>message\<close> is not enumerable)
  spread nothing.\<close>

fun spread :: "jsval \<Rightarrow> (string, jsval) fmap" where
  "spread (Obj ps) = own_enumerable ps"
| "spread (Ctx ms ps) = own_enumerable ps"
| "spread (Str s) = fmap_of_list (map (\<lambda>i. (show_nat i, Str [s ! i])) [0..<length s])"
| "spread _ = fmempty"

definition literal :: "(string, jsval) fmap \<Rightarrow> object" where
  "literal m = fmmap data_prop m"

section \<open>Result\<close>

record ResultProps =
  p_resultType :: string
  p_isSuccess :: bool
  p_error :: jsval
  p_data :: jsval
  p_context :: "object option"
  p_useCaseClass :: "string option"

record Result =
  resultType :: string
  data :: jsval
  error :: jsval
  "context" :: object
  useCaseClass :: string
  priv_isSuccess :: bool

text \<open>The constructor. An absent \<open>error\<close> or \<open>data\<close> key reads as \<open>undefined\<close>.\<close>

definition new_Result :: "ResultProps \<Rightarrow> Result" where
  "new_Result p =
     \<lparr> resultType = p_resultType p,
       data = nullish_or (p_data p) empty_object,
       error = nullish_or (p_error p) empty_object,
       context = (case p_context p of None \<Rightarrow> fmempty | Some c \<Rightarrow> c),
       useCaseClass = (case p_useCaseClass p of None \<Rightarrow> [] | Some u \<Rightarrow> u),
       priv_isSuccess = p_isSuccess p \<rparr>"

definition getValue :: "Result \<Rightarrow> jsval" where
  "getValue this = data this"

definition isSuccess :: "Result \<Rightarrow> bool" where
  "isSuccess this = priv_isSuccess this"

definition isFailure :: "Result \<Rightarrow> bool" where
  "isFailure this = (\<not> priv_isSuccess this)"

definition getType :: "Result \<Rightarrow> string" where
  "getType this = resultType this"

definition getError :: "Result \<Rightarrow> jsval" where
  "getError this = error this"

definition Success :: "jsval \<Rightarrow> object option \<Rightarrow> string option \<Rightarrow> Result" where
  "Success v c u =
     new_Result \<lparr> p_resultType = ''SUCCESS'', p_isSuccess = True, p_error = Undefined,
                  p_data = v, p_context = c, p_useCaseClass = u \<rparr>"

text \<open>\<open>failureType = 'FAILURE'\<close> is a default parameter: \<open>None\<close> is the omitted argument.\<close>

definition Failure :: "jsval \<Rightarrow> string option \<Rightarrow> object option \<Rightarrow> string option \<Rightarrow> Result" where
  "Failure e failureType c u =
     new_Result \<lparr> p_resultType = (case failureType of None \<Rightarrow> ''FAILURE'' | Some t \<Rightarrow> t),
                  p_isSuccess = False, p_error = e, p_data = Undefined,
                  p_context = c, p_useCaseClass = u \<rparr>"

text \<open>What the constructor establishes for every instance: neither payload is
  \<open>undefined\<close> or \<open>null\<close>. The fields are read-only, so it holds for every Result.\<close>

definition constructed :: "Result \<Rightarrow> bool" where
  "constructed r = (\<not> nullish (data r) \<and> \<not> nullish (error r))"

subsection \<open>Chaining\<close>

text \<open>
  A callback may change the world before it returns or throws, so it takes the state of
  the world and gives back the new one; a method that calls it threads the state through.
  A method that never calls its callback leaves the state as it was, whatever the callback.
\<close>

type_synonym 's chain_fn = "jsval \<Rightarrow> Result \<Rightarrow> 's \<Rightarrow> Result awaitable completion \<times> 's"

type_synonym 's hook = "jsval \<Rightarrow> Result \<Rightarrow> 's \<Rightarrow> unit completion \<times> 's"

definition mergeContext :: "Result \<Rightarrow> Result \<Rightarrow> Result" where
  "mergeContext result mergeable =
     new_Result \<lparr> p_resultType = resultType result,
                  p_isSuccess = priv_isSuccess result,
                  p_error = error result,
                  p_data = data result,
                  p_context =
                    Some (literal (own_enumerable (context mergeable) ++\<^sub>f
                                   own_enumerable (context result))),
                  p_useCaseClass = Some (useCaseClass result) \<rparr>"

text \<open>\<open>error instanceof Error ? error : new Error(String(error))\<close>, as both \<open>catch\<close>
  blocks compute it: the value thrown, or an \<open>Error\<close> made from its string; when
  \<open>String(error)\<close> throws, so does the expression.\<close>

definition as_Error :: "jsval \<Rightarrow> jsval completion" where
  "as_Error err =
     (if instanceof_Error err then Normal err
      else (case js_String err of
              Normal msg \<Rightarrow> Normal (new_Error msg)
            | Thrown t \<Rightarrow> Thrown t))"

text \<open>\<open>and_then\<close> is an \<open>async\<close> method: its result is the settlement of the promise it
  returns. What is thrown inside the \<open>catch\<close> block rejects that promise.\<close>

definition and_then :: "Result \<Rightarrow> 's chain_fn \<Rightarrow> 's \<Rightarrow> Result settled \<times> 's" where
  "and_then this fn s =
     (if isFailure this then
        (Fulfilled (Failure (error this) (Some (resultType this)) (Some (context this))
                            (Some (useCaseClass this))), s)
      else
        (case fn (getValue this) this s of
           (c, s') \<Rightarrow>
             (case try_await c of
                Normal result \<Rightarrow> (Fulfilled (mergeContext result this), s')
              | Thrown err \<Rightarrow>
                  (case as_Error err of
                     Thrown t \<Rightarrow> (Rejected t, s')
                   | Normal e \<Rightarrow>
                       (Fulfilled
                          (Failure e (Some ''UNEXPECTED_ERROR'')
                             (Some (literal (fmupd ''rawError'' err
                                      (own_enumerable (context this)))))
                             (Some (useCaseClass this))), s')))))"

definition execUseCase :: "Result \<Rightarrow> 's chain_fn \<Rightarrow> 's \<Rightarrow> Result settled \<times> 's" where
  "execUseCase this fn s = and_then this fn s"

subsection \<open>Observation hooks\<close>

text \<open>Neither method has a \<open>try\<close>: what the callback throws leaves the method.\<close>

definition onSuccess :: "Result \<Rightarrow> 's hook \<Rightarrow> 's \<Rightarrow> Result completion \<times> 's" where
  "onSuccess this f s =
     (if priv_isSuccess this then
        (case f (getValue this) this s of
           (Thrown e, s') \<Rightarrow> (Thrown e, s')
         | (Normal u, s') \<Rightarrow> (Normal this, s'))
      else (Normal this, s))"

definition onFailure :: "Result \<Rightarrow> 's hook \<Rightarrow> string option \<Rightarrow> 's \<Rightarrow> Result completion \<times> 's" where
  "onFailure this f failureType s =
     (if isFailure this \<and>
         resultType this = (case failureType of None \<Rightarrow> ''FAILURE'' | Some t \<Rightarrow> t) then
        (case f (getError this) this s of
           (Thrown e, s') \<Rightarrow> (Thrown e, s')
         | (Normal u, s') \<Rightarrow> (Normal this, s'))
      else (Normal this, s))"

section \<open>ResultPromise\<close>

record ResultPromise =
  promise :: "Result settled"

text \<open>\<open>promise.then(onfulfilled)\<close> for a handler that returns a promise: a rejected promise
  skips the handler, a fulfilled one takes the settlement of the promise the handler
  returns.\<close>

fun promise_then :: "'a settled \<Rightarrow> ('a \<Rightarrow> 's \<Rightarrow> 'b settled \<times> 's) \<Rightarrow> 's \<Rightarrow> 'b settled \<times> 's" where
  "promise_then (Fulfilled x) onfulfilled s = onfulfilled x s"
| "promise_then (Rejected e) onfulfilled s = (Rejected e, s)"

definition ResultPromise_and_then ::
    "ResultPromise \<Rightarrow> 's chain_fn \<Rightarrow> 's \<Rightarrow> ResultPromise \<times> 's" where
  "ResultPromise_and_then this fn s =
     (case promise_then (promise this) (\<lambda>result. and_then result fn) s of
        (newPromise, s') \<Rightarrow> (\<lparr> promise = newPromise \<rparr>, s'))"

definition toResult :: "ResultPromise \<Rightarrow> Result settled" where
  "toResult this = promise this"

section \<open>Context\<close>

text \<open>The names an instance of \<open>Context\<close> itself inherits: the members of
  \<open>Context.prototype\<close> and of \<open>Object.prototype\<close>. A subclass adds its own.\<close>

definition Object_prototype_members :: "string list" where
  "Object_prototype_members =
     [''constructor'', ''__defineGetter__'', ''__defineSetter__'', ''hasOwnProperty'',
      ''__lookupGetter__'', ''__lookupSetter__'', ''isPrototypeOf'',
      ''propertyIsEnumerable'', ''toString'', ''valueOf'', ''__proto__'',
      ''toLocaleString'']"

definition Context_members :: "string list" where
  "Context_members = [''constructor'', ''getInput'', ''getOutput''] @ Object_prototype_members"

text \<open>\<open>key in this\<close>: an own property, or a member found along the prototype chain.\<close>

definition has_property :: "string list \<Rightarrow> object \<Rightarrow> string \<Rightarrow> bool" where
  "has_property ms this key = (key |\<in>| fmdom this \<or> key \<in> set ms)"

text \<open>\<open>Object.entries(o)\<close>: the enumerable own properties, each key once. The list is
  in key order here and in property order in JavaScript; the loop below gives the same
  object for every order (lemma \<open>forEach_order_irrelevant\<close>).\<close>

definition Object_entries :: "object \<Rightarrow> (string \<times> jsval) list" where
  "Object_entries ps = sorted_list_of_fmap (own_enumerable ps)"

text \<open>The body of the \<open>forEach\<close> loop of the constructor.\<close>

fun define_unless_present :: "string list \<Rightarrow> string \<times> jsval \<Rightarrow> object \<Rightarrow> object" where
  "define_unless_present ms (key, v) this =
     (if \<not> has_property ms this key then fmupd key (Prop v False True True) this else this)"

text \<open>\<open>new C(input, data)\<close> for \<open>C\<close> the class \<open>Context\<close> or a subclass of it whose
  prototype chain has the members \<open>ms\<close>.\<close>

definition new_Context :: "string list \<Rightarrow> jsval \<Rightarrow> jsval \<Rightarrow> jsval" where
  "new_Context ms input d =
     (let this = fmupd ''_outputParams'' (data_prop (nullish_or d empty_object))
                   (fmupd ''_inputParams'' (data_prop (nullish_or input empty_object)) fmempty);
          properties = literal (spread (or_else input empty_object) ++\<^sub>f
                                spread (or_else d empty_object))
      in Ctx ms (fold (define_unless_present ms) (Object_entries properties) this))"

text \<open>Reading an own property of an object, with its descriptor.\<close>

fun own_property :: "jsval \<Rightarrow> string \<Rightarrow> jsval pdesc option" where
  "own_property (Obj ps) k = fmlookup ps k"
| "own_property (Ctx ms ps) k = fmlookup ps k"
| "own_property _ k = None"

definition read_own :: "jsval \<Rightarrow> string \<Rightarrow> jsval" where
  "read_own this k = (case own_property this k of None \<Rightarrow> Undefined | Some p \<Rightarrow> pvalue p)"

definition getInput :: "jsval \<Rightarrow> jsval" where
  "getInput this = read_own this ''_inputParams''"

definition getOutput :: "jsval \<Rightarrow> jsval" where
  "getOutput this = read_own this ''_outputParams''"

section \<open>UseCase\<close>

text \<open>A concrete use case: the name of its class (\<open>this.constructor.name\<close>) and its
  \<open>execute\<close>, which may throw, or return a promise that rejects.\<close>

record 's UseCase =
  constructor_name :: string
  execute :: "jsval \<Rightarrow> 's \<Rightarrow> Result awaitable completion \<times> 's"

definition call :: "'s UseCase \<Rightarrow> jsval \<Rightarrow> 's \<Rightarrow> Result settled \<times> 's" where
  "call this params s =
     (case execute this params s of
        (c, s') \<Rightarrow>
          (case try_await c of
             Normal result \<Rightarrow>
               (if isFailure result then
                  (Fulfilled (Failure (getError result) (Some (getType result))
                                (Some (context result)) (Some (constructor_name this))), s')
                else
                  (Fulfilled
                     (Success (getValue result)
                        (Some (literal (fmupd (constructor_name this)
                                 (new_Context Context_members params (getValue result)) fmempty)))
                        (Some (constructor_name this))), s'))
           | Thrown err \<Rightarrow>
               (case as_Error err of
                  Thrown t \<Rightarrow> (Rejected t, s')
                | Normal e \<Rightarrow>
                    (Fulfilled
                       (Failure e (Some ''UNEXPECTED_ERROR'')
                          (Some (literal (fmupd ''rawError'' err fmempty)))
                          (Some (constructor_name this))), s'))))"

text \<open>The later revision of the base class: the same body under another name, wrapped
  in a \<open>ResultPromise\<close> by its \<open>call\<close>.\<close>

definition executeWithErrorHandling :: "'s UseCase \<Rightarrow> jsval \<Rightarrow> 's \<Rightarrow> Result settled \<times> 's" where
  "executeWithErrorHandling this params s =
     (case execute this params s of
        (c, s') \<Rightarrow>
          (case try_await c of
             Normal result \<Rightarrow>
               (if isFailure result then
                  (Fulfilled (Failure (getError result) (Some (getType result))
                                (Some (context result)) (Some (constructor_name this))), s')
                else
                  (Fulfilled
                     (Success (getValue result)
                        (Some (literal (fmupd (constructor_name this)
                                 (new_Context Context_members params (getValue result)) fmempty)))
                        (Some (constructor_name this))), s'))
           | Thrown err \<Rightarrow>
               (case as_Error err of
                  Thrown t \<Rightarrow> (Rejected t, s')
                | Normal e \<Rightarrow>
                    (Fulfilled
                       (Failure e (Some ''UNEXPECTED_ERROR'')
                          (Some (literal (fmupd ''rawError'' err fmempty)))
                          (Some (constructor_name this))), s'))))"

definition BaseUseCase_call :: "'s UseCase \<Rightarrow> jsval \<Rightarrow> 's \<Rightarrow> ResultPromise \<times> 's" where
  "BaseUseCase_call this params s =
     (case executeWithErrorHandling this params s of
        (p, s') \<Rightarrow> (\<lparr> promise = p \<rparr>, s'))"

section \<open>Example callbacks and use cases\<close>

text \<open>Callbacks that count their invocations in the state, or record their arguments.\<close>

definition returning :: "Result \<Rightarrow> nat chain_fn" where
  "returning next v r n = (Normal (Plain next), Suc n)"

definition resolving :: "Result \<Rightarrow> nat chain_fn" where
  "resolving next v r n = (Normal (Promise (Fulfilled next)), Suc n)"

definition throwing :: "jsval \<Rightarrow> nat chain_fn" where
  "throwing e v r n = (Thrown e, Suc n)"

definition rejecting :: "jsval \<Rightarrow> nat chain_fn" where
  "rejecting e v r n = (Normal (Promise (Rejected e)), Suc n)"

definition recording_hook :: "((jsval \<times> Result) list) hook" where
  "recording_hook v r log = (Normal (), log @ [(v, r)])"

definition throwing_hook :: "nat hook" where
  "throwing_hook v r n = (Thrown (Str ''boom''), Suc n)"

text \<open>The use cases of the test suite: the length of the input string, a thrown
  \<open>Error\<close>, and a thrown string.\<close>

definition SuccessUseCase :: "nat UseCase" where
  "SuccessUseCase =
     \<lparr> constructor_name = ''SuccessUseCase'',
       execute = (\<lambda>input n.
         (Normal (Promise (Fulfilled
            (Success (case input of Str x \<Rightarrow> Num (safe (int (length x))) | _ \<Rightarrow> Num (safe 0)) None None))),
          Suc n)) \<rparr>"

definition ThrowingUseCase :: "nat UseCase" where
  "ThrowingUseCase =
     \<lparr> constructor_name = ''ThrowingUseCase'',
       execute = (\<lambda>input n. (Normal (Promise (Rejected (Err ''Execution error''))), Suc n)) \<rparr>"

definition ThrowingNonErrorUseCase :: "nat UseCase" where
  "ThrowingNonErrorUseCase =
     \<lparr> constructor_name = ''ThrowingNonErrorUseCase'',
       execute = (\<lambda>input n. (Normal (Promise (Rejected (Str ''string error''))), Suc n)) \<rparr>"

text \<open>A value whose conversion to a string throws, and a use case that throws it.\<close>

definition unstringifiable :: jsval where
  "unstringifiable = Obj (literal (fmupd ''toString'' (Num (safe 1)) fmempty))"

definition ThrowingObjectUseCase :: "nat UseCase" where
  "ThrowingObjectUseCase =
     \<lparr> constructor_name = ''ThrowingObjectUseCase'',
       execute = (\<lambda>input n. (Normal (Promise (Rejected unstringifiable)), Suc n)) \<rparr>"

text \<open>Results used as examples.\<close>

definition example_failure :: Result where
  "example_failure =
     Failure (Err ''bad input'') (Some ''VALIDATION'')
       (Some (literal (fmupd ''x'' (Num (safe 1)) fmempty))) (Some ''Validate'')"

definition example_next :: Result where
  "example_next =
     Success (Str ''b'') (Some (literal (fmupd ''y'' (Num (safe 3)) (fmupd ''x'' (Num (safe 2)) fmempty)))) None"

definition example_success :: Result where
  "example_success = Success (Str ''a'') (Some (literal (fmupd ''x'' (Num (safe 1)) fmempty))) None"

definition failure_with_data :: Result where
  "failure_with_data =
     new_Result \<lparr> p_resultType = ''FAILURE'', p_isSuccess = False, p_error = Err ''bad input'',
                  p_data = Num (safe 7), p_context = None, p_useCaseClass = None \<rparr>"

definition example_input :: jsval where
  "example_input =
     Obj (literal (fmupd ''shared'' (Str ''input'') (fmupd ''id'' (Str ''123'') fmempty)))"

definition example_output :: jsval where
  "example_output =
     Obj (literal (fmupd ''shared'' (Str ''output'') (fmupd ''result'' (Str ''Success'') fmempty)))"

text \<open>The members of the test suite's subclass of \<open>Context\<close>, which defines a getter
  \<open>id\<close>.\<close>

definition TestContext_members :: "string list" where
  "TestContext_members = ''id'' # Context_members"

section \<open>Basic facts\<close>

lemmas Result_defs =
  new_Result_def Success_def Failure_def getValue_def isSuccess_def isFailure_def
  getType_def getError_def

lemma nullish_empty_object [simp]: "\<not> nullish empty_object"
  by (simp add: empty_object_def)

lemma nullish_or_keeps [simp]: "\<not> nullish a \<Longrightarrow> nullish_or a b = a"
  by (simp add: nullish_or_def)

lemma nullish_or_not_nullish [simp]: "\<not> nullish (nullish_or a empty_object)"
  by (simp add: nullish_or_def)

lemma constructed_new_Result: "constructed (new_Result p)"
  by (simp add: constructed_def new_Result_def)

lemma constructed_iff_new_Result: "constructed r \<longleftrightarrow> (\<exists>p. r = new_Result p)"
proof
  assume c: "constructed r"
  let ?p = "\<lparr> p_resultType = resultType r, p_isSuccess = priv_isSuccess r, p_error = error r,
              p_data = data r, p_context = Some (context r),
              p_useCaseClass = Some (useCaseClass r) \<rparr>"
  from c have "r = new_Result ?p"
    by (simp add: constructed_def new_Result_def)
  then show "\<exists>p. r = new_Result p" ..
next
  assume "\<exists>p. r = new_Result p"
  then show "constructed r"
    by (auto simp: constructed_new_Result)
qed

lemma lookup_own_enumerable:
  "fmlookup (own_enumerable ps) k =
     (case fmlookup ps k of None \<Rightarrow> None
      | Some p \<Rightarrow> if enumerable p then Some (pvalue p) else None)"
  by (simp add: own_enumerable_def split: option.splits)

lemma lookup_literal: "fmlookup (literal m) k = map_option data_prop (fmlookup m k)"
  by (simp add: literal_def)

lemma own_enumerable_literal [simp]: "own_enumerable (literal m) = m"
  by (rule fmap_ext) (simp add: lookup_own_enumerable lookup_literal data_prop_def split: option.splits)

lemma fold_define_lookup:
  "fmlookup (fold (define_unless_present ms) xs this) k =
     (if k |\<in>| fmdom this then fmlookup this k
      else if k \<in> set ms then None
      else map_option (\<lambda>v. Prop v False True True) (map_of xs k))"
proof (induction xs arbitrary: this)
  case Nil
  then show ?case by (auto simp: fmdom_notD)
next
  case (Cons x xs)
  obtain key v where x: "x = (key, v)" by (cases x)
  show ?case
    by (auto simp: x Cons.IH has_property_def fmdom_notD)
qed

lemma spread_or_else [simp]: "spread (or_else v empty_object) = spread v"
  by (cases v) (auto simp: or_else_def empty_object_def own_enumerable_def)

lemma own_property_new_Context:
  "own_property (new_Context ms i d) k =
     (if k = ''_inputParams'' then Some (data_prop (nullish_or i empty_object))
      else if k = ''_outputParams'' then Some (data_prop (nullish_or d empty_object))
      else if k \<in> set ms then None
      else case fmlookup (spread d) k of
             Some v \<Rightarrow> Some (Prop v False True True)
           | None \<Rightarrow> map_option (\<lambda>v. Prop v False True True) (fmlookup (spread i) k))"
  by (auto simp: new_Context_def Let_def Object_entries_def fold_define_lookup
           split: option.splits)

lemma example_merge:
  "fmupd ''x'' (Num (safe 1)) fmempty ++\<^sub>f fmupd ''y'' (Num (safe 3)) (fmupd ''x'' (Num (safe 2)) fmempty) =
   fmupd ''y'' (Num (safe 3)) (fmupd ''x'' (Num (safe 2)) fmempty)"
  by (rule fmap_ext) simp

lemma as_Error_not_nullish: "as_Error e = Normal x \<Longrightarrow> \<not> nullish x"
  by (cases e) (auto simp: as_Error_def new_Error_def split: completion.splits)

lemma as_Error_Error [simp]: "as_Error (Err m) = Normal (Err m)"
  by (simp add: as_Error_def)

lemma as_Error_Str [simp]: "as_Error (Str m) = Normal (Err m)"
  by (simp add: as_Error_def new_Error_def)

lemma js_String_unstringifiable: "js_String unstringifiable = Thrown TypeError_not_primitive"
  by (simp add: unstringifiable_def object_String_def literal_def)

lemma as_Error_unstringifiable [simp]: "as_Error unstringifiable = Thrown TypeError_not_primitive"
  by (simp add: as_Error_def js_String_unstringifiable) (simp add: unstringifiable_def)

lemma getInput_new_Context: "getInput (new_Context ms i d) = nullish_or i empty_object"
  by (simp add: getInput_def read_own_def own_property_new_Context data_prop_def)

lemma getOutput_new_Context: "getOutput (new_Context ms i d) = nullish_or d empty_object"
  by (simp add: getOutput_def read_own_def own_property_new_Context data_prop_def)

lemma call_eq_executeWithErrorHandling: "executeWithErrorHandling u input s = call u input s"
  by (simp add: executeWithErrorHandling_def call_def)

lemma forEach_order_irrelevant:
  assumes "map_of xs = map_of ys"
  shows "fold (define_unless_present ms) xs this = fold (define_unless_present ms) ys this"
  by (rule fmap_ext) (simp add: fold_define_lookup assms)

text \<open>Every Result that \<open>and_then\<close> or \<open>call\<close> gives is one of the constructor's, and
  their promises reject only with what the string conversion in the \<open>catch\<close> throws.\<close>

lemma and_then_fulfils_constructed:
  "fst (and_then r fn s) = Fulfilled r' \<Longrightarrow> constructed r'"
  by (auto simp: and_then_def mergeContext_def Failure_def constructed_new_Result
           split: prod.splits completion.splits if_splits)

lemma and_then_rejects_only_in_catch:
  "fst (and_then r fn s) = Rejected t \<Longrightarrow>
     isSuccess r \<and> (\<exists>e. try_await (fst (fn (getValue r) r s)) = Thrown e \<and>
                         \<not> instanceof_Error e \<and> js_String e = Thrown t)"
  by (auto simp: and_then_def as_Error_def isSuccess_def isFailure_def
           split: prod.splits completion.splits if_splits)

lemma call_fulfils_constructed:
  "fst (call u input s) = Fulfilled r' \<Longrightarrow> constructed r'"
  by (auto simp: call_def Success_def Failure_def constructed_new_Result
           split: prod.splits completion.splits if_splits)

lemma call_rejects_only_in_catch:
  "fst (call u input s) = Rejected t \<Longrightarrow>
     (\<exists>e. try_await (fst (execute u input s)) = Thrown e \<and>
          \<not> instanceof_Error e \<and> js_String e = Thrown t)"
  by (auto simp: call_def as_Error_def split: prod.splits completion.splits if_splits)

lemma and_then_plain_or_promise:
  "and_then r (returning next) n = and_then r (resolving next) n" and
  "and_then r (throwing e) n = and_then r (rejecting e) n"
  by (simp_all add: and_then_def returning_def resolving_def throwing_def rejecting_def)

lemma execUseCase_is_and_then: "execUseCase r fn s = and_then r fn s"
  by (simp add: execUseCase_def)

lemma BaseUseCase_call_wraps:
  "toResult (fst (BaseUseCase_call u input s)) = fst (call u input s) \<and>
   snd (BaseUseCase_call u input s) = snd (call u input s)"
  by (simp add: BaseUseCase_call_def toResult_def call_eq_executeWithErrorHandling
           split: prod.splits)

lemma ResultPromise_and_then_rejected:
  "promise rp = Rejected e \<Longrightarrow>
     ResultPromise_and_then rp fn s = (\<lparr> promise = Rejected e \<rparr>, s)"
  by (simp add: ResultPromise_and_then_def)

section \<open>Properties of the chaining protocol\<close>

text \<open>
  Claim C1. On a failure Result, \<open>and_then\<close> never invokes its callback: whatever the
  callback is, the state of the world is unchanged, and the promise is fulfilled with a
  failure Result that has the error, resultType, context and useCaseClass of the original.
\<close>

theorem and_then_failure_short_circuits:
  assumes "isFailure r" and "constructed r"
  shows "\<exists>r'. and_then r fn s = (Fulfilled r', s) \<and> isFailure r' \<and> error r' = error r \<and>
           resultType r' = resultType r \<and> context r' = context r \<and>
           useCaseClass r' = useCaseClass r"
  using assms by (simp add: and_then_def Result_defs constructed_def)

theorem and_then_failure_short_circuits_witness:
  "isFailure example_failure \<and> constructed example_failure \<and>
   (\<exists>r'. and_then example_failure (returning example_next) (0::nat) = (Fulfilled r', 0) \<and>
      isFailure r' \<and> error r' = Err ''bad input'' \<and> resultType r' = ''VALIDATION'' \<and>
      context r' = literal (fmupd ''x'' (Num (safe 1)) fmempty) \<and> useCaseClass r' = ''Validate'')"
  using and_then_failure_short_circuits [of example_failure "returning example_next" "0::nat"]
  by (simp add: example_failure_def Result_defs constructed_def)

text \<open>
  Claim C2. On a success Result whose callback completes normally with a Result \<open>next\<close>
  (returned directly or through a fulfilled promise), \<open>and_then\<close> is fulfilled with a
  Result whose context is the shallow merge of the context of the original and then of
  \<open>next\<close>, a key of \<open>next\<close> winning over the same key of the original, and whose
  resultType, success flag, data, error and useCaseClass are those of \<open>next\<close>.
  The witness is the example of the specification: \<open>{x: 1}\<close> merged with
  \<open>{x: 2, y: 3}\<close> is \<open>{x: 2, y: 3}\<close>.
\<close>

theorem and_then_success_merges_context:
  assumes "isSuccess r" and "constructed next"
    and "try_await (fst (fn (getValue r) r s)) = Normal next"
  shows "\<exists>r'. fst (and_then r fn s) = Fulfilled r' \<and>
           snd (and_then r fn s) = snd (fn (getValue r) r s) \<and>
           context r' = literal (own_enumerable (context r) ++\<^sub>f own_enumerable (context next)) \<and>
           fmlookup (own_enumerable (context r')) k =
             (case fmlookup (own_enumerable (context next)) k of
                Some v \<Rightarrow> Some v
              | None \<Rightarrow> fmlookup (own_enumerable (context r)) k) \<and>
           resultType r' = resultType next \<and> isSuccess r' = isSuccess next \<and>
           data r' = data next \<and> error r' = error next \<and>
           useCaseClass r' = useCaseClass next"
  using assms
  by (auto simp: and_then_def mergeContext_def Result_defs constructed_def fmlookup_dom_iff
           split: prod.splits option.splits)

theorem and_then_success_merges_context_witness:
  "isSuccess example_success \<and> constructed example_next \<and>
   try_await (fst (returning example_next (getValue example_success) example_success (0::nat)))
     = Normal example_next \<and>
   (\<exists>r'. fst (and_then example_success (returning example_next) (0::nat)) = Fulfilled r' \<and>
      snd (and_then example_success (returning example_next) (0::nat)) = 1 \<and>
      context r' = literal (fmupd ''y'' (Num (safe 3)) (fmupd ''x'' (Num (safe 2)) fmempty)) \<and>
      fmlookup (own_enumerable (context r')) ''x'' = Some (Num (safe 2)) \<and>
      getValue r' = Str ''b'' \<and> getType r' = ''SUCCESS'')"
proof -
  have h1: "isSuccess example_success"
    by (simp add: example_success_def Result_defs)
  have h2: "constructed example_next"
    by (simp add: example_next_def Result_defs constructed_def)
  have h3: "try_await (fst (returning example_next (getValue example_success) example_success
              (0::nat))) = Normal example_next"
    by (simp add: returning_def)
  have c: "context example_success = literal (fmupd ''x'' (Num (safe 1)) fmempty)"
          "context example_next = literal (fmupd ''y'' (Num (safe 3)) (fmupd ''x'' (Num (safe 2)) fmempty))"
          "data example_next = Str ''b''" "resultType example_next = ''SUCCESS''"
    by (simp_all add: example_success_def example_next_def Result_defs)
  have s: "\<And>v r. snd (returning example_next v r (0::nat)) = 1"
    by (simp add: returning_def)
  from and_then_success_merges_context
         [of example_success example_next "returning example_next" "0::nat" "''x''", OF h1 h2 h3]
       h1 h2 h3 show ?thesis
    by (auto simp add: c s example_merge getValue_def getType_def)
qed

text \<open>
  When the callback of a success Result throws a value \<open>e\<close>, synchronously or by
  returning a promise that rejects with it, and \<open>e\<close> is an \<open>Error\<close> or \<open>String(e)\<close>
  returns, the promise of \<open>and_then\<close> is fulfilled with a failure Result of type
  \<open>UNEXPECTED_ERROR\<close> whose context is \<open>{...context, rawError: e}\<close>, whose useCaseClass
  is that of the original and whose error is \<open>e\<close> or an \<open>Error\<close> with message
  \<open>String(e)\<close>.
\<close>

lemma and_then_catches_convertible:
  assumes "isSuccess r" and "try_await (fst (fn (getValue r) r s)) = Thrown e"
    and "as_Error e = Normal x"
  shows "\<exists>r'. fst (and_then r fn s) = Fulfilled r' \<and>
           snd (and_then r fn s) = snd (fn (getValue r) r s) \<and>
           isFailure r' \<and> resultType r' = ''UNEXPECTED_ERROR'' \<and>
           context r' = literal (fmupd ''rawError'' e (own_enumerable (context r))) \<and>
           fmlookup (own_enumerable (context r')) ''rawError'' = Some e \<and>
           useCaseClass r' = useCaseClass r \<and>
           error r' = x"
  using assms as_Error_not_nullish [OF assms(3)]
  by (auto simp: and_then_def Result_defs split: prod.splits)

lemma as_Error_cases:
  "as_Error e = Normal x \<longleftrightarrow>
     (instanceof_Error e \<and> x = e) \<or>
     (\<not> instanceof_Error e \<and> (\<exists>msg. js_String e = Normal msg \<and> x = new_Error msg))"
  by (auto simp: as_Error_def split: completion.splits)

text \<open>The examples of the specification: a thrown string \<open>boom\<close> and a rejection with
  \<open>new Error("boom")\<close> both give an error with message \<open>boom\<close>.\<close>

lemma and_then_catches_boom:
  "and_then example_success (throwing (Str ''boom'')) (0::nat) =
     (Fulfilled (Failure (Err ''boom'') (Some ''UNEXPECTED_ERROR'')
        (Some (literal (fmupd ''rawError'' (Str ''boom'') (fmupd ''x'' (Num (safe 1)) fmempty))))
        (Some [])), 1)"
  "and_then example_success (rejecting (Err ''boom'')) (0::nat) =
     (Fulfilled (Failure (Err ''boom'') (Some ''UNEXPECTED_ERROR'')
        (Some (literal (fmupd ''rawError'' (Err ''boom'') (fmupd ''x'' (Num (safe 1)) fmempty))))
        (Some [])), 1)"
  by (simp_all add: and_then_def throwing_def rejecting_def example_success_def Result_defs)

text \<open>
  Claim C3 says that what the callback throws is never rethrown to the caller. The
  \<open>catch\<close> block of \<open>and_then\<close> evaluates \<open>String(error)\<close> for a thrown value that is
  not an \<open>Error\<close>, with nothing around it: for the thrown object \<open>{toString: 1}\<close> the
  conversion throws a \<open>TypeError\<close>, and the promise of \<open>and_then\<close> rejects with it
  instead of being fulfilled with an \<open>UNEXPECTED_ERROR\<close> failure.
\<close>

theorem and_then_rejects_unstringifiable:
  "isSuccess example_success \<and>
   try_await (fst (throwing unstringifiable (getValue example_success) example_success (0::nat)))
     = Thrown unstringifiable \<and>
   and_then example_success (throwing unstringifiable) (0::nat)
     = (Rejected TypeError_not_primitive, 1)"
  by (simp add: and_then_def throwing_def example_success_def Result_defs)

text \<open>
  Claim C10. A failure Result may carry data (the constructor accepts it); the Result
  that \<open>and_then\<close> returns for it is rebuilt by \<open>Failure\<close>, so its value is the empty
  object. The witness carries the value 7.
\<close>

theorem and_then_failure_drops_data:
  assumes "isFailure r"
  shows "\<exists>r'. fst (and_then r fn s) = Fulfilled r' \<and> getValue r' = empty_object"
  using assms by (simp add: and_then_def Result_defs nullish_or_def)

theorem and_then_failure_drops_data_witness:
  "isFailure failure_with_data \<and> getValue failure_with_data = Num (safe 7) \<and>
   (\<exists>r'. fst (and_then failure_with_data (returning example_next) (0::nat)) = Fulfilled r' \<and>
          getValue r' = empty_object)"
proof -
  have f: "isFailure failure_with_data" "getValue failure_with_data = Num (safe 7)"
    by (simp_all add: failure_with_data_def Result_defs)
  from and_then_failure_drops_data [of failure_with_data "returning example_next" "0::nat",
         OF f(1)] f
  show ?thesis
    by simp
qed

section \<open>Observation hooks and accessors\<close>

text \<open>
  Claim C4, as stated, asks that \<open>onSuccess\<close> and \<open>onFailure\<close> always return the
  Result they were called on. Neither method catches what its callback throws: on a
  success, \<open>onSuccess\<close> with a callback that throws does not return the Result but
  throws, and so does \<open>onFailure\<close> on a failure of the matching type.
\<close>

theorem hooks_throw_counterexample:
  "fst (onSuccess example_success throwing_hook (0::nat)) \<noteq> Normal example_success \<and>
   fst (onFailure example_failure throwing_hook (Some ''VALIDATION'') (0::nat))
     \<noteq> Normal example_failure"
  by (simp add: onSuccess_def onFailure_def throwing_hook_def example_success_def
        example_failure_def Result_defs)

text \<open>
  Claim C4, amended. \<open>onSuccess\<close> invokes its callback once with the value and the
  Result exactly when the Result is a success, and \<open>onFailure\<close> invokes its callback
  once with the error and the Result exactly when the Result is a failure whose type is
  the type to match (\<open>FAILURE\<close> when omitted); otherwise the state is untouched. Each
  method returns the Result it was called on whenever the callback is not invoked or
  completes normally; what the callback throws leaves the method uncaught.
\<close>

theorem hooks_return_self:
  "snd (onSuccess r f s) = (if isSuccess r then snd (f (getValue r) r s) else s) \<and>
   fst (onSuccess r f s) =
     (if isSuccess r then
        (case fst (f (getValue r) r s) of Normal u \<Rightarrow> Normal r | Thrown e \<Rightarrow> Thrown e)
      else Normal r) \<and>
   snd (onFailure r g t s) =
     (if isFailure r \<and> getType r = (case t of None \<Rightarrow> ''FAILURE'' | Some m \<Rightarrow> m)
      then snd (g (getError r) r s) else s) \<and>
   fst (onFailure r g t s) =
     (if isFailure r \<and> getType r = (case t of None \<Rightarrow> ''FAILURE'' | Some m \<Rightarrow> m)
      then (case fst (g (getError r) r s) of Normal u \<Rightarrow> Normal r | Thrown e \<Rightarrow> Thrown e)
      else Normal r)"
  by (auto simp: onSuccess_def onFailure_def Result_defs split: prod.splits completion.splits)

theorem hooks_return_self_witness:
  "onSuccess example_success recording_hook [] =
     (Normal example_success, [(Str ''a'', example_success)]) \<and>
   onFailure example_success recording_hook None [] = (Normal example_success, []) \<and>
   onSuccess example_failure recording_hook [] = (Normal example_failure, []) \<and>
   onFailure example_failure recording_hook None [] = (Normal example_failure, []) \<and>
   onFailure example_failure recording_hook (Some ''VALIDATION'') [] =
     (Normal example_failure, [(Err ''bad input'', example_failure)])"
proof -
  have e: "isSuccess example_success" "\<not> isFailure example_success"
          "getValue example_success = Str ''a''"
          "\<not> isSuccess example_failure" "isFailure example_failure"
          "getType example_failure = ''VALIDATION''" "getError example_failure = Err ''bad input''"
    by (simp_all add: example_success_def example_failure_def Result_defs)
  have r: "\<And>v r log. recording_hook v r log = (Normal (), log @ [(v, r)])"
    by (simp add: recording_hook_def)
  show ?thesis
    using hooks_return_self [of example_success recording_hook "[]" recording_hook None]
          hooks_return_self [of example_failure recording_hook "[]" recording_hook None]
          hooks_return_self [of example_failure recording_hook "[]" recording_hook
                                "Some ''VALIDATION''"]
    by (simp add: e r prod_eq_iff)
qed

text \<open>
  Claim C5, as stated, asks \<open>Success(v).getValue() === v\<close> for every value \<open>v\<close>. The
  constructor stores \<open>data ?? {}\<close>, so for \<open>null\<close> and for \<open>undefined\<close> the value read
  back is the empty object.
\<close>

theorem Success_nullish_counterexample:
  "getValue (Success Null None None) \<noteq> Null \<and>
   getValue (Success Undefined None None) \<noteq> Undefined"
  by (simp add: Result_defs nullish_or_def empty_object_def)

text \<open>
  Claim C5, amended. \<open>Success(v)\<close> is a success of type \<open>SUCCESS\<close> whose value is
  \<open>v\<close> for every \<open>v\<close> other than \<open>null\<close> and \<open>undefined\<close>, and the empty object for
  these two; \<open>Failure(e, t)\<close> is a failure of type \<open>t\<close> whose error is \<open>e\<close> for every
  \<open>e\<close> other than \<open>null\<close> and \<open>undefined\<close> (every value of type \<open>Error\<close>);
  \<open>getError\<close> on a Result made by \<open>Success\<close> and \<open>getValue\<close> on a Result made by
  \<open>Failure\<close> are the empty object.
\<close>

theorem Success_Failure_accessors:
  "isSuccess (Success v c u) \<and>
   getValue (Success v c u) = (if nullish v then empty_object else v) \<and>
   getType (Success v c u) = ''SUCCESS'' \<and>
   isFailure (Failure e (Some t) c u) \<and>
   getType (Failure e (Some t) c u) = t \<and>
   getError (Failure e (Some t) c u) = (if nullish e then empty_object else e) \<and>
   getError (Success v c u) = empty_object \<and>
   getValue (Failure e ft c u) = empty_object"
  by (simp add: Result_defs nullish_or_def)

theorem Success_Failure_accessors_witness:
  "getValue (Success (Num (safe 4)) None None) = Num (safe 4) \<and>
   getValue (Success Null None None) = empty_object \<and>
   getError (Failure (Err ''bad input'') (Some ''VALIDATION'') None None) = Err ''bad input'' \<and>
   getType (Failure (Err ''bad input'') (Some ''VALIDATION'') None None) = ''VALIDATION''"
  using Success_Failure_accessors [of "Num (safe 4)" None None "Err ''bad input''" "''VALIDATION''" None]
        Success_Failure_accessors [of Null None None "Err ''bad input''" "''VALIDATION''" None]
  by simp

section \<open>ResultPromise, UseCase and Context\<close>

text \<open>
  Claim C9. When the wrapped promise is fulfilled with a Result \<open>r\<close>,
  \<open>ResultPromise#and_then\<close> with a callback settles as \<open>r.and_then\<close> with that callback
  does, with the same effect on the state; when \<open>r\<close> is a failure the callback is not
  invoked and the Result has the error of \<open>r\<close>.
\<close>

theorem ResultPromise_and_then_refines:
  assumes "promise rp = Fulfilled r"
  shows "toResult (fst (ResultPromise_and_then rp fn s)) = fst (and_then r fn s) \<and>
         snd (ResultPromise_and_then rp fn s) = snd (and_then r fn s) \<and>
         (isFailure r \<and> constructed r \<longrightarrow>
            snd (ResultPromise_and_then rp fn s) = s \<and>
            (\<exists>r'. toResult (fst (ResultPromise_and_then rp fn s)) = Fulfilled r' \<and>
                   isFailure r' \<and> getError r' = getError r))"
proof -
  have eq: "toResult (fst (ResultPromise_and_then rp fn s)) = fst (and_then r fn s)"
           "snd (ResultPromise_and_then rp fn s) = snd (and_then r fn s)"
    using assms by (simp_all add: ResultPromise_and_then_def toResult_def split: prod.splits)
  have "snd (and_then r fn s) = s \<and>
        (\<exists>r'. fst (and_then r fn s) = Fulfilled r' \<and> isFailure r' \<and> getError r' = getError r)"
    if "isFailure r" "constructed r"
    using that by (simp add: and_then_def Result_defs constructed_def)
  with eq show ?thesis
    by simp
qed

theorem ResultPromise_and_then_refines_witness:
  "promise \<lparr> promise = Fulfilled example_failure \<rparr> = Fulfilled example_failure \<and>
   isFailure example_failure \<and> constructed example_failure \<and>
   snd (ResultPromise_and_then \<lparr> promise = Fulfilled example_failure \<rparr>
          (returning example_next) (0::nat)) = 0 \<and>
   (\<exists>r'. toResult (fst (ResultPromise_and_then \<lparr> promise = Fulfilled example_failure \<rparr>
                          (returning example_next) (0::nat))) = Fulfilled r' \<and>
          isFailure r' \<and> getError r' = Err ''bad input'')"
proof -
  have h: "promise \<lparr> promise = Fulfilled example_failure \<rparr> = Fulfilled example_failure"
    by simp
  have f: "isFailure example_failure" "constructed example_failure"
          "getError example_failure = Err ''bad input''"
    by (simp_all add: example_failure_def Result_defs constructed_def)
  from ResultPromise_and_then_refines [of "\<lparr> promise = Fulfilled example_failure \<rparr>"
         example_failure "returning example_next" "0::nat", OF h] f h
  show ?thesis
    by metis
qed

text \<open>
  Claim C6. When \<open>execute(input)\<close> completes with a success Result of value \<open>v\<close>,
  \<open>call(input)\<close> (and \<open>_executeWithErrorHandling\<close> of the later revision) is fulfilled
  with a success Result of value \<open>v\<close> whose useCaseClass is the name of the use case and
  whose context is the one-entry object \<open>{[name]: new Context(input, v)}\<close>, whatever
  context the inner Result carried. The witness is the use case of the test suite on
  the input \<open>test\<close>.
\<close>

theorem call_rewraps_success:
  assumes "try_await (fst (execute u input s)) = Normal res"
    and "isSuccess res" and "constructed res"
  shows "\<exists>r'. fst (call u input s) = Fulfilled r' \<and>
           fst (executeWithErrorHandling u input s) = Fulfilled r' \<and>
           isSuccess r' \<and> getValue r' = getValue res \<and>
           useCaseClass r' = constructor_name u \<and>
           context r' =
             literal (fmupd (constructor_name u)
                        (new_Context Context_members input (getValue res)) fmempty)"
  using assms
  by (auto simp: call_eq_executeWithErrorHandling call_def Result_defs constructed_def
           split: prod.splits)

theorem call_rewraps_success_witness:
  "try_await (fst (execute SuccessUseCase (Str ''test'') (0::nat)))
     = Normal (Success (Num (safe 4)) None None) \<and>
   isSuccess (Success (Num (safe 4)) None None) \<and> constructed (Success (Num (safe 4)) None None) \<and>
   (\<exists>r'. fst (call SuccessUseCase (Str ''test'') 0) = Fulfilled r' \<and>
      isSuccess r' \<and> getValue r' = Num (safe 4) \<and> useCaseClass r' = ''SuccessUseCase'' \<and>
      context r' =
        literal (fmupd ''SuccessUseCase'' (new_Context Context_members (Str ''test'') (Num (safe 4)))
                   fmempty))"
proof -
  have h1: "try_await (fst (execute SuccessUseCase (Str ''test'') (0::nat)))
              = Normal (Success (Num (safe 4)) None None)"
    by (simp add: SuccessUseCase_def)
  have h2: "isSuccess (Success (Num (safe 4)) None None)"
    by (simp add: Result_defs)
  have h3: "constructed (Success (Num (safe 4)) None None)"
    by (simp add: Success_def constructed_new_Result)
  have c: "getValue (Success (Num (safe 4)) None None) = Num (safe 4)"
          "constructor_name SuccessUseCase = ''SuccessUseCase''"
    by (simp_all add: Result_defs SuccessUseCase_def)
  from call_rewraps_success [of SuccessUseCase "Str ''test''" "0::nat", OF h1 h2 h3] h1 h2 h3
  show ?thesis
    by (auto simp add: c)
qed

text \<open>
  When \<open>execute(input)\<close> throws a value \<open>e\<close> or rejects with it, and \<open>e\<close> is an \<open>Error\<close>
  or \<open>String(e)\<close> returns, \<open>call(input)\<close> is fulfilled with a failure Result of type
  \<open>UNEXPECTED_ERROR\<close> whose context is \<open>{rawError: e}\<close>, whose useCaseClass is the name
  of the use case and whose error is \<open>e\<close> or an \<open>Error\<close> with message \<open>String(e)\<close>.
\<close>

lemma call_catches_convertible:
  assumes "try_await (fst (execute u input s)) = Thrown e" and "as_Error e = Normal x"
  shows "\<exists>r'. fst (call u input s) = Fulfilled r' \<and>
           fst (executeWithErrorHandling u input s) = Fulfilled r' \<and>
           isFailure r' \<and> getType r' = ''UNEXPECTED_ERROR'' \<and>
           context r' = literal (fmupd ''rawError'' e fmempty) \<and>
           useCaseClass r' = constructor_name u \<and>
           getError r' = x"
  using assms as_Error_not_nullish [OF assms(2)]
  by (auto simp: call_eq_executeWithErrorHandling call_def Result_defs split: prod.splits)

text \<open>The use cases of the test suite that throw an \<open>Error\<close> and a string.\<close>

lemma call_catches_examples:
  "fst (call ThrowingUseCase (Str ''test'') 0) =
     Fulfilled (Failure (Err ''Execution error'') (Some ''UNEXPECTED_ERROR'')
        (Some (literal (fmupd ''rawError'' (Err ''Execution error'') fmempty)))
        (Some ''ThrowingUseCase''))"
  "fst (call ThrowingNonErrorUseCase (Str ''test'') 0) =
     Fulfilled (Failure (Err ''string error'') (Some ''UNEXPECTED_ERROR'')
        (Some (literal (fmupd ''rawError'' (Str ''string error'') fmempty)))
        (Some ''ThrowingNonErrorUseCase''))"
  by (simp_all add: call_def ThrowingUseCase_def ThrowingNonErrorUseCase_def)

text \<open>
  Claim C7 says that \<open>call\<close> does not rethrow what \<open>execute\<close> throws. The \<open>catch\<close>
  block of \<open>call\<close> (and of \<open>_executeWithErrorHandling\<close>) evaluates \<open>String(error)\<close> as
  the one of \<open>and_then\<close> does: when \<open>execute\<close> rejects with the object
  \<open>{toString: 1}\<close> the conversion throws a \<open>TypeError\<close>, and the promise of \<open>call\<close>
  rejects with it instead of being fulfilled with an \<open>UNEXPECTED_ERROR\<close> failure.
\<close>

theorem call_rejects_unstringifiable:
  "try_await (fst (execute ThrowingObjectUseCase (Str ''test'') (0::nat)))
     = Thrown unstringifiable \<and>
   call ThrowingObjectUseCase (Str ''test'') (0::nat) = (Rejected TypeError_not_primitive, 1) \<and>
   executeWithErrorHandling ThrowingObjectUseCase (Str ''test'') (0::nat)
     = (Rejected TypeError_not_primitive, 1)"
  by (simp add: call_eq_executeWithErrorHandling call_def ThrowingObjectUseCase_def)

text \<open>
  Claim C8. The own properties of \<open>new Context(input, output)\<close>, key by key: the two
  fields hold the input and the output (the empty object in place of \<open>null\<close> or
  \<open>undefined\<close>) and are never overwritten; a key that the instance inherits is skipped;
  every other enumerable own property of the output, and every enumerable own property
  of the input that the output does not define, is an own data property that is not
  writable, is enumerable and is configurable; nothing else is defined. \<open>getInput\<close> and
  \<open>getOutput\<close> return the input and the output given.
\<close>

theorem Context_exposes_properties:
  "own_property (new_Context ms i d) k =
     (if k = ''_inputParams'' then Some (data_prop (nullish_or i empty_object))
      else if k = ''_outputParams'' then Some (data_prop (nullish_or d empty_object))
      else if k \<in> set ms then None
      else case fmlookup (spread d) k of
             Some v \<Rightarrow> Some (Prop v False True True)
           | None \<Rightarrow> map_option (\<lambda>v. Prop v False True True) (fmlookup (spread i) k)) \<and>
   getInput (new_Context ms i d) = (if nullish i then empty_object else i) \<and>
   getOutput (new_Context ms i d) = (if nullish d then empty_object else d)"
  by (simp add: own_property_new_Context getInput_new_Context getOutput_new_Context
        nullish_or_def)

theorem Context_exposes_properties_witness:
  "own_property (new_Context TestContext_members example_input example_output) ''shared''
     = Some (Prop (Str ''output'') False True True) \<and>
   own_property (new_Context Context_members example_input example_output) ''id''
     = Some (Prop (Str ''123'') False True True) \<and>
   own_property (new_Context TestContext_members example_input example_output) ''id'' = None \<and>
   own_property (new_Context Context_members example_input example_output) ''result''
     = Some (Prop (Str ''Success'') False True True) \<and>
   getInput (new_Context Context_members example_input example_output) = example_input \<and>
   getOutput (new_Context Context_members Undefined example_output) = example_output \<and>
   getInput (new_Context Context_members Undefined example_output) = empty_object"
  using Context_exposes_properties [of TestContext_members example_input example_output "''shared''"]
        Context_exposes_properties [of Context_members example_input example_output "''id''"]
        Context_exposes_properties [of TestContext_members example_input example_output "''id''"]
        Context_exposes_properties [of Context_members example_input example_output "''result''"]
        Context_exposes_properties [of Context_members Undefined example_output "''id''"]
  by (simp add: example_input_def example_output_def TestContext_members_def Context_members_def
        Object_prototype_members_def lookup_own_enumerable lookup_literal data_prop_def)

end
